theory Spec2Isabelle
  imports Main
begin

section \<open>Data model\<close>

text \<open>
  The objects of the chat library that the handlers read, with the attributes the code
  accesses. An attribute that may be \<open>None\<close> in Python is an \<open>option\<close>; an attribute that
  is a (possibly empty) sequence is a list.
\<close>

record tg_user =
  usr_id :: int
  usr_username :: "string option"
  usr_name :: string

record poll_option =
  opt_text :: string
  opt_voter_count :: nat

text \<open>
  A poll as received. \<open>poll_voters\<close> stands for the identities that answered a
  non-anonymous poll; together with the counts, the anonymity flag and the closed flag
  it is the data of the original that the recreated poll must not depend on.
\<close>

record poll =
  poll_id :: string
  poll_question :: string
  poll_options :: "poll_option list"
  poll_total_voter_count :: nat
  poll_is_closed :: bool
  poll_is_anonymous :: bool
  poll_type :: string
  poll_allows_multiple_answers :: bool
  poll_correct_option_id :: "int option"
  poll_voters :: "tg_user list"

record entity =
  ent_type :: string
  ent_offset :: nat
  ent_length :: nat

text \<open>
  Keyboards are built by helpers of \<open>keyboard_util\<close>; a keyboard is represented by the
  helper that built it and the arguments it was given.
\<close>

datatype keyboard =
    ApproveKb
  | PublishedPostKb
  | PostOutcomeKb "(int \<times> bool) list" "string option"

text \<open>
  The content attributes of a message. A media attribute is the identifier of the file
  when present; \<open>msg_photo\<close> is the sequence of sizes, empty when the message has no photo.
\<close>

record content =
  msg_message_id :: int
  msg_chat_id :: int
  msg_chat_type :: string
  msg_from_user :: "tg_user option"
  msg_text :: "string option"
  msg_entities :: "entity list"
  msg_photo :: "string list"
  msg_voice :: "string option"
  msg_audio :: "string option"
  msg_video :: "string option"
  msg_animation :: "string option"
  msg_sticker :: "string option"
  msg_poll :: "poll option"
  msg_reply_markup :: "keyboard option"
  msg_forward_from_message_id :: "int option"
  msg_forward_from_chat_id :: "int option"

text \<open>
  A message is its content together with the message it replies to. Only the content
  of the replied-to message is ever read, so one level of nesting is kept.
\<close>

record message = content +
  msg_reply_to_message :: "content option"

record callback_query =
  cq_id :: string
  cq_data :: "string option"
  cq_from_user :: tg_user
  cq_message :: "message option"

record update =
  upd_message :: "message option"
  upd_edited_message :: "message option"
  upd_callback_query :: "callback_query option"

text \<open>
  \<open>EventInfo\<close>: the private attributes \<open>__message\<close> and \<open>__query\<close>, and of the context
  \<open>__ctx\<close> the positional arguments and the \<open>show_preview\<close> entry of \<open>user_data\<close>.
  The context's \<open>bot_data\<close> is shared between events and lives in the world state below.
\<close>

record event_info =
  ei_message :: "message option"
  ei_query :: "callback_query option"
  ei_ctx_args :: "string list option"
  ei_show_preview :: "bool option"

text \<open>The configuration keys read by the handlers.\<close>

record config =
  cfg_admin_group_id :: int
  cfg_channel_id :: int
  cfg_community_group_id :: int
  cfg_comments :: bool
  cfg_group_id :: "int option"

text \<open>Exceptions that the modelled code can raise or let through.\<close>

datatype exn = BadRequest | TransportError | AttributeError | IndexError

section \<open>Python primitives\<close>

text \<open>\<open>str.split(sep)\<close> for a one-character separator: it never returns an empty list.\<close>

fun py_split :: "char \<Rightarrow> string \<Rightarrow> string list" where
  "py_split sep [] = [[]]"
| "py_split sep (c # cs) =
     (if c = sep then [] # py_split sep cs
      else (case py_split sep cs of
              [] \<Rightarrow> [[c]]
            | f # fs \<Rightarrow> (c # f) # fs))"

text \<open>\<open>sep.join(fields)\<close>.\<close>

fun py_join :: "char \<Rightarrow> string list \<Rightarrow> string" where
  "py_join sep [] = []"
| "py_join sep [f] = f"
| "py_join sep (f # g # fs) = f @ sep # py_join sep (g # fs)"

text \<open>\<open>xs[0]\<close> raises \<open>IndexError\<close> on an empty list.\<close>

definition py_index0 :: "'a list \<Rightarrow> exn + 'a" where
  "py_index0 xs = (case xs of [] \<Rightarrow> Inl IndexError | x # _ \<Rightarrow> Inr x)"

text \<open>Truthiness of an optional string and of an optional object.\<close>

definition truthy_str :: "string option \<Rightarrow> bool" where
  "truthy_str s = (case s of None \<Rightarrow> False | Some t \<Rightarrow> t \<noteq> [])"

definition truthy_obj :: "'a option \<Rightarrow> bool" where
  "truthy_obj x = (case x of None \<Rightarrow> False | Some _ \<Rightarrow> True)"

text \<open>\<open>str(n)\<close> for integers and for \<open>None\<close>, as an f-string renders them.\<close>

definition digit_char :: "nat \<Rightarrow> char" where
  "digit_char d = char_of (48 + d)"

function str_nat :: "nat \<Rightarrow> string" where
  "str_nat n = (if n < 10 then [digit_char n] else str_nat (n div 10) @ [digit_char (n mod 10)])"
  by pat_completeness auto
termination
  by (relation "measure (\<lambda>n. n)") auto

declare str_nat.simps [simp del]

definition str_int :: "int \<Rightarrow> string" where
  "str_int i = (if i < 0 then CHR ''-'' # str_nat (nat (- i)) else str_nat (nat i))"

definition str_opt_int :: "int option \<Rightarrow> string" where
  "str_opt_int x = (case x of None \<Rightarrow> ''None'' | Some i \<Rightarrow> str_int i)"

section \<open>Conversation states\<close>

text \<open>The dictionary \<open>STATE\<close> of \<open>handlers/constants.py\<close>, in the order it is written.\<close>

definition STATE :: "(string \<times> int) list" where
  "STATE =
     [(''posting'', 1),
      (''confirm'', 2),
      (''reporting_spot'', 3),
      (''reporting_user'', 4),
      (''reporting_user_reason'', 6),
      (''sending_user_report'', 7),
      (''end'', - 1)]"

section \<open>Event accessors\<close>

text \<open>
  The constructors and properties of \<open>EventInfo\<close> (\<open>spotted/utils/info_util.py\<close>), under
  the names they have there. \<open>from_message\<close> takes the message of the update, or else its
  edited message; \<open>from_callback\<close> takes the query of the update and the message the query
  is attached to, and raises when the update has no query.
\<close>

definition from_message :: "update \<Rightarrow> string list option \<Rightarrow> bool option \<Rightarrow> event_info" where
  "from_message upd args sp =
     \<lparr>ei_message = (case upd_message upd of Some m \<Rightarrow> Some m | None \<Rightarrow> upd_edited_message upd),
      ei_query = None, ei_ctx_args = args, ei_show_preview = sp\<rparr>"

definition from_callback :: "update \<Rightarrow> string list option \<Rightarrow> bool option \<Rightarrow> exn + event_info" where
  "from_callback upd args sp =
     (case upd_callback_query upd of
        None \<Rightarrow> Inl AttributeError
      | Some q \<Rightarrow>
          Inr \<lparr>ei_message = cq_message q,
               ei_query = Some q, ei_ctx_args = args, ei_show_preview = sp\<rparr>)"

definition chat_id :: "event_info \<Rightarrow> int option" where
  "chat_id info = (case ei_message info of None \<Rightarrow> None | Some m \<Rightarrow> Some (msg_chat_id m))"

definition message_id :: "event_info \<Rightarrow> int option" where
  "message_id info = (case ei_message info of None \<Rightarrow> None | Some m \<Rightarrow> Some (msg_message_id m))"

definition forward_from_id :: "event_info \<Rightarrow> int option" where
  "forward_from_id info =
     (case ei_message info of None \<Rightarrow> None | Some m \<Rightarrow> msg_forward_from_message_id m)"

definition forward_from_chat_id :: "event_info \<Rightarrow> int option" where
  "forward_from_chat_id info =
     (case ei_message info of None \<Rightarrow> None | Some m \<Rightarrow> msg_forward_from_chat_id m)"

text \<open>
  \<open>callback_key\<close> (lines 91 to 97) and \<open>args\<close> (lines 99 to 108). Indexing the result of
  \<open>split\<close> with \<open>[0]\<close> is the one operation of the two that could raise.
\<close>

definition callback_key :: "event_info \<Rightarrow> exn + string" where
  "callback_key info =
     (case ei_query info of
        None \<Rightarrow> Inr ''''
      | Some q \<Rightarrow>
          (case cq_data q of
             None \<Rightarrow> Inr ''''
           | Some d \<Rightarrow> py_index0 (py_split CHR '','' d)))"

definition args :: "event_info \<Rightarrow> string list" where
  "args info =
     (case (case ei_query info of None \<Rightarrow> None | Some q \<Rightarrow> cq_data q) of
        Some d \<Rightarrow>
          (let a = py_split CHR '','' d
           in if length a > 1 then drop 1 a else [])
      | None \<Rightarrow> (case ei_ctx_args info of Some a \<Rightarrow> a | None \<Rightarrow> []))"

text \<open>
  \<open>is_valid_message_type\<close> (lines 117 to 131): \<open>bool\<close> of the \<open>or\<close> of the eight attributes.
\<close>

definition is_valid_message_type :: "event_info \<Rightarrow> bool" where
  "is_valid_message_type info =
     (case ei_message info of
        None \<Rightarrow> False
      | Some m \<Rightarrow>
          (truthy_str (msg_text m)
           \<or> msg_photo m \<noteq> []
           \<or> truthy_obj (msg_voice m)
           \<or> truthy_obj (msg_audio m)
           \<or> truthy_obj (msg_video m)
           \<or> truthy_obj (msg_animation m)
           \<or> truthy_obj (msg_sticker m)
           \<or> truthy_obj (msg_poll m)))"

text \<open>
  The identity accessors (lines 140 to 165). \<open>from_user\<close> of a callback query is always
  present; that of a message may be \<open>None\<close> (a channel post), and reading an attribute of
  it then raises. A user without a username has \<open>username\<close> \<open>None\<close>, which
  \<open>user_username\<close> returns as it is.
\<close>

definition user_id :: "event_info \<Rightarrow> exn + int option" where
  "user_id info =
     (case ei_query info of
        Some q \<Rightarrow> Inr (Some (usr_id (cq_from_user q)))
      | None \<Rightarrow>
          (case ei_message info of
             Some m \<Rightarrow>
               (case msg_from_user m of
                  None \<Rightarrow> Inl AttributeError
                | Some u \<Rightarrow> Inr (Some (usr_id u)))
           | None \<Rightarrow> Inr None))"

definition user_username :: "event_info \<Rightarrow> exn + string option" where
  "user_username info =
     (case ei_query info of
        Some q \<Rightarrow> Inr (usr_username (cq_from_user q))
      | None \<Rightarrow>
          (case ei_message info of
             Some m \<Rightarrow>
               (case msg_from_user m of
                  None \<Rightarrow> Inl AttributeError
                | Some u \<Rightarrow> Inr (usr_username u))
           | None \<Rightarrow> Inr None))"

definition user_name :: "event_info \<Rightarrow> exn + string option" where
  "user_name info =
     (case ei_query info of
        Some q \<Rightarrow> Inr (Some (usr_name (cq_from_user q)))
      | None \<Rightarrow>
          (case ei_message info of
             Some m \<Rightarrow>
               (case msg_from_user m of
                  None \<Rightarrow> Inl AttributeError
                | Some u \<Rightarrow> Inr (Some (usr_name u)))
           | None \<Rightarrow> Inr None))"

section \<open>Transport, store and shared data\<close>

text \<open>
  The calls the handlers make on the bot, with the keyword arguments they pass. An
  argument that a call site leaves out is \<open>None\<close> (or the empty sequence).
\<close>

datatype bot_call =
    SendPoll int string "string list" string bool "int option" "keyboard option"
  | SendMessage int string "keyboard option" "entity list" "bool option" "int option"
  | CopyMessage int int int "keyboard option"
  | EditMessageReplyMarkup int int "keyboard option"

text \<open>
  The transport answers a call with the identifier of the new message, or raises:
  \<open>BadRequest\<close>, or any other error of the library (\<open>TransportError\<close>).
\<close>

type_synonym transport = "bot_call \<Rightarrow> exn + int"

record pending_post =
  pp_u_chat_id :: int
  pp_u_message_id :: int
  pp_admin_group_id :: int
  pp_g_message_id :: int
  pp_votes :: "(int \<times> bool) list"

record published_post =
  pub_channel_id :: int
  pub_c_message_id :: int
  pub_votes :: "(int \<times> bool) list"

text \<open>
  What the handlers change: the calls made on the bot, in order; the two tables of the
  store; and the dictionary \<open>bot_data\<close> of the context.
\<close>

record world =
  calls :: "bot_call list"
  pending_posts :: "pending_post list"
  published_posts :: "published_post list"
  bot_data :: "string \<rightharpoonup> int"

definition do_call :: "bot_call \<Rightarrow> world \<Rightarrow> world" where
  "do_call c w = w\<lparr>calls := calls w @ [c]\<rparr>"

text \<open>
  Modelled from the spec: \<open>PendingPost.create\<close> of \<open>spotted.data\<close> is not among the
  sources. The spec has it create one pending record that refers to the submitted
  content and to the admin-facing copy (group and message), with an empty vote map.
\<close>

definition PendingPost_create :: "content \<Rightarrow> int \<Rightarrow> int \<Rightarrow> world \<Rightarrow> world" where
  "PendingPost_create user_message admin_group_id g_message_id w =
     w\<lparr>pending_posts := pending_posts w @
        [\<lparr>pp_u_chat_id = msg_chat_id user_message,
          pp_u_message_id = msg_message_id user_message,
          pp_admin_group_id = admin_group_id,
          pp_g_message_id = g_message_id,
          pp_votes = []\<rparr>]\<rparr>"

text \<open>
  Modelled from the spec: \<open>PendingPost.get_all\<close> of \<open>spotted.data\<close> is not among the
  sources. The spec has it return the pending posts of one admin destination.
\<close>

definition PendingPost_get_all :: "int \<Rightarrow> world \<Rightarrow> pending_post list" where
  "PendingPost_get_all admin_group_id w =
     filter (\<lambda>p. pp_admin_group_id p = admin_group_id) (pending_posts w)"

text \<open>
  Modelled from the spec: \<open>PublishedPost.create\<close> of \<open>spotted.data\<close> is not among the
  sources. The spec has it create one record for the pair of destination and message
  identifier, with an empty tally.
\<close>

definition PublishedPost_create :: "int \<Rightarrow> int \<Rightarrow> world \<Rightarrow> world" where
  "PublishedPost_create c_message_id channel_id w =
     w\<lparr>published_posts := published_posts w @
        [\<lparr>pub_channel_id = channel_id, pub_c_message_id = c_message_id, pub_votes = []\<rparr>]\<rparr>"

text \<open>\<open>d.pop(key, default)\<close>: the value and the dictionary without the key.\<close>

definition py_pop :: "('k \<rightharpoonup> 'v) \<Rightarrow> 'k \<Rightarrow> 'v \<Rightarrow> 'v \<times> ('k \<rightharpoonup> 'v)" where
  "py_pop d k dflt = (case d k of None \<Rightarrow> (dflt, d) | Some v \<Rightarrow> (v, d(k := None)))"

text \<open>The key of a credit record: the f-string \<open>"{chat},{message}"\<close>.\<close>

definition credit_key :: "int option \<Rightarrow> int option \<Rightarrow> string" where
  "credit_key c m = str_opt_int c @ '','' @ str_opt_int m"

section \<open>Handlers\<close>

text \<open>
  The call that recreates a poll: only the question, the option texts, the type, the
  multiple-answers flag and the correct option are passed on.
\<close>

definition send_poll_call :: "int \<Rightarrow> poll \<Rightarrow> keyboard option \<Rightarrow> bot_call" where
  "send_poll_call dest p kb =
     SendPoll dest (poll_question p) (map opt_text (poll_options p)) (poll_type p)
       (poll_allows_multiple_answers p) (poll_correct_option_id p) kb"

text \<open>
  \<open>EventInfo.send_post_to_admins\<close> (\<open>info_util.py\<close>, lines 281 to 324).

  The test \<open>message.text and message.entities\<close> of the second branch: the text, when it
  is non-empty and the message has entities.
\<close>

definition text_with_entities :: "content \<Rightarrow> string option" where
  "text_with_entities message =
     (case msg_text message of
        None \<Rightarrow> None
      | Some t \<Rightarrow> if t \<noteq> [] \<and> msg_entities message \<noteq> [] then Some t else None)"

text \<open>
  The body of the \<open>try\<close>: the one call made on the bot, chosen by the three branches
  (a poll, a text with entities, anything else). \<open>show_preview\<close> is
  \<open>user_data.get("show_preview", True)\<close>.
\<close>

definition admin_call :: "event_info \<Rightarrow> config \<Rightarrow> content \<Rightarrow> bot_call" where
  "admin_call info cfg message =
     (case msg_poll message of
        Some p \<Rightarrow> send_poll_call (cfg_admin_group_id cfg) p (Some ApproveKb)
      | None \<Rightarrow>
          (case text_with_entities message of
             Some t \<Rightarrow>
               (let show_preview = (case ei_show_preview info of None \<Rightarrow> True | Some b \<Rightarrow> b)
                in SendMessage (cfg_admin_group_id cfg) t (Some ApproveKb)
                     (msg_entities message) (Some (\<not> show_preview)) None)
           | None \<Rightarrow>
               CopyMessage (cfg_admin_group_id cfg) (msg_chat_id message)
                 (msg_message_id message) (Some ApproveKb)))"

text \<open>
  The function itself. The result is the returned boolean, or the exception that leaves
  the coroutine, together with the world after it. Reading \<open>reply_to_message\<close> of an
  absent message, or \<open>poll\<close> of an absent replied-to message, raises before the \<open>try\<close>.
  Only \<open>BadRequest\<close> is caught (and logged, which is not modelled); \<open>PendingPost.create\<close>
  comes after the \<open>try\<close>.
\<close>

definition send_post_to_admins ::
  "event_info \<Rightarrow> config \<Rightarrow> transport \<Rightarrow> world \<Rightarrow> (exn + bool) \<times> world" where
  "send_post_to_admins info cfg send w =
     (case ei_message info of
        None \<Rightarrow> (Inl AttributeError, w)
      | Some m \<Rightarrow>
          (case msg_reply_to_message m of
             None \<Rightarrow> (Inl AttributeError, w)
           | Some message \<Rightarrow>
               (let c = admin_call info cfg message; w1 = do_call c w
                in case send c of
                     Inl BadRequest \<Rightarrow> (Inr False, w1)
                   | Inl e \<Rightarrow> (Inl e, w1)
                   | Inr g_message_id \<Rightarrow>
                       (Inr True,
                        PendingPost_create message (cfg_admin_group_id cfg) g_message_id w1))))"

text \<open>
  \<open>EventInfo.send_post_to_channel\<close> (lines 326 to 358): first the call made on the bot,
  then the function. No exception of the transport is caught here.
\<close>

definition channel_call :: "config \<Rightarrow> message \<Rightarrow> bot_call" where
  "channel_call cfg message =
     (let reply_markup = (if \<not> cfg_comments cfg then Some PublishedPostKb else None)
      in case msg_poll message of
           Some p \<Rightarrow> send_poll_call (cfg_channel_id cfg) p reply_markup
         | None \<Rightarrow>
             CopyMessage (cfg_channel_id cfg) (msg_chat_id message) (msg_message_id message)
               reply_markup)"

definition send_post_to_channel ::
  "event_info \<Rightarrow> int \<Rightarrow> config \<Rightarrow> transport \<Rightarrow> world \<Rightarrow> (exn + unit) \<times> world" where
  "send_post_to_channel info uid cfg send w =
     (case ei_message info of
        None \<Rightarrow> (Inl AttributeError, w)
      | Some message \<Rightarrow>
          (let c = channel_call cfg message; w1 = do_call c w
           in case send c of
                Inl e \<Rightarrow> (Inl e, w1)
              | Inr c_message_id \<Rightarrow>
                  if \<not> cfg_comments cfg then
                    (Inr (), PublishedPost_create c_message_id (cfg_channel_id cfg) w1)
                  else
                    (Inr (),
                     w1\<lparr>bot_data := (bot_data w1)
                          (credit_key (Some (cfg_channel_id cfg)) (Some c_message_id) \<mapsto> uid)\<rparr>)))"

text \<open>
  \<open>EventInfo.send_post_to_channel_group\<close> (lines 360 to 377). \<open>get_user_sign\<close> of \<open>User\<close>
  is not among the sources and is a parameter: the sign of a user identifier, or an
  exception. The first component of the result is the identifier that \<open>bot_data.pop\<close>
  returned, which the function hands to \<open>User\<close>.
\<close>

definition send_post_to_channel_group ::
  "event_info \<Rightarrow> config \<Rightarrow> (int \<Rightarrow> exn + string) \<Rightarrow> transport \<Rightarrow> world
     \<Rightarrow> int \<times> (exn + unit) \<times> world" where
  "send_post_to_channel_group info cfg get_user_sign send w =
     (let (uid, bd) = py_pop (bot_data w)
                        (credit_key (forward_from_chat_id info) (forward_from_id info)) (- 1);
          w1 = w\<lparr>bot_data := bd\<rparr>
      in case get_user_sign uid of
           Inl e \<Rightarrow> (uid, Inl e, w1)
         | Inr sign \<Rightarrow>
             (case ei_message info of
                None \<Rightarrow> (uid, Inl AttributeError, w1)
              | Some message \<Rightarrow>
                  (let c = SendMessage (cfg_community_group_id cfg) (''by: '' @ sign)
                             (Some PublishedPostKb) [] None (Some (msg_message_id message));
                       w2 = do_call c w1
                   in case send c of
                        Inl e \<Rightarrow> (uid, Inl e, w2)
                      | Inr post_message_id \<Rightarrow>
                          (uid, Inr (),
                           PublishedPost_create post_message_id (cfg_community_group_id cfg) w2))))"

text \<open>
  \<open>EventInfo.show_admins_votes\<close> (lines 379 to 413). The reminder text starts with the
  UTF-8 bytes of the arrow emoji of the source. \<open>get_post_outcome_kb\<close> of \<open>keyboard_util\<close>
  is not among the sources and is a parameter: it is awaited with the bot, so it gives
  a keyboard or an exception. \<open>get_list_admin_votes\<close> is the vote list of the pending
  post. Neither call on the bot is guarded by a \<open>try\<close>.
\<close>

definition reminder_text :: "nat \<Rightarrow> string" where
  "reminder_text n =
     [CHR 0xE2, CHR 0xAC, CHR 0x86, CHR 0xEF, CHR 0xB8, CHR 0x8F] @ '' Post in attesa'' @
     [CHR 0x0A] @ ''Rimangono '' @ str_nat n @ '' post in attesa''"

definition show_admins_votes ::
  "pending_post \<Rightarrow> string option
     \<Rightarrow> ((int \<times> bool) list \<Rightarrow> string option \<Rightarrow> exn + keyboard)
     \<Rightarrow> transport \<Rightarrow> world \<Rightarrow> (exn + unit) \<times> world" where
  "show_admins_votes pending_post reason get_post_outcome_kb send w =
     (case get_post_outcome_kb (pp_votes pending_post) reason of
        Inl e \<Rightarrow> (Inl e, w)
      | Inr inline_keyboard \<Rightarrow>
     (let c = EditMessageReplyMarkup (pp_admin_group_id pending_post)
                (pp_g_message_id pending_post) (Some inline_keyboard);
          w1 = do_call c w
      in case send c of
           Inl e \<Rightarrow> (Inl e, w1)
         | Inr _ \<Rightarrow>
             (let remaining0 = PendingPost_get_all (pp_admin_group_id pending_post) w1;
                  remaining1 = filter (\<lambda>post. pp_g_message_id post \<noteq> pp_g_message_id pending_post)
                                 remaining0;
                  remaining = sort_key pp_g_message_id remaining1;
                  remaining_count = length remaining
              in if remaining_count > 0 then
                   (case py_index0 remaining of
                      Inl e \<Rightarrow> (Inl e, w1)
                    | Inr oldest \<Rightarrow>
                        (let c2 = SendMessage (pp_admin_group_id pending_post)
                                    (reminder_text remaining_count) None [] None
                                    (Some (pp_g_message_id oldest));
                             w2 = do_call c2 w1
                         in case send c2 of
                              Inl e \<Rightarrow> (Inl e, w2)
                            | Inr _ \<Rightarrow> (Inr (), w2)))
                 else (Inr (), w1))))"

text \<open>
  \<open>db_backup_cmd\<close> (\<open>modules/handlers/db_backup.py\<close>). \<open>db_backup_job\<close> is not among the
  sources and is a parameter: what the job does to the world. The configured
  \<open>group_id\<close> is optional, as the result of a configuration lookup is. The first
  component tells whether the job was started.
\<close>

definition db_backup_cmd ::
  "update \<Rightarrow> string list option \<Rightarrow> bool option \<Rightarrow> config \<Rightarrow> (world \<Rightarrow> world) \<Rightarrow> world
     \<Rightarrow> bool \<times> world" where
  "db_backup_cmd upd ctx_args sp cfg db_backup_job w =
     (let info = from_message upd ctx_args sp
      in if chat_id info = cfg_group_id cfg then (True, db_backup_job w) else (False, w))"

section \<open>Content kinds\<close>

text \<open>
  The eight supported kinds of the specification, and what it means for a message to
  match one: the attribute of that kind is populated.
\<close>

datatype kind = Text | Photo | Voice | Audio | Video | Animation | Sticker | Poll

fun matches_kind :: "message \<Rightarrow> kind \<Rightarrow> bool" where
  "matches_kind m Text = (case msg_text m of None \<Rightarrow> False | Some t \<Rightarrow> t \<noteq> [])"
| "matches_kind m Photo = (msg_photo m \<noteq> [])"
| "matches_kind m Voice = (msg_voice m \<noteq> None)"
| "matches_kind m Audio = (msg_audio m \<noteq> None)"
| "matches_kind m Video = (msg_video m \<noteq> None)"
| "matches_kind m Animation = (msg_animation m \<noteq> None)"
| "matches_kind m Sticker = (msg_sticker m \<noteq> None)"
| "matches_kind m Poll = (msg_poll m \<noteq> None)"

section \<open>Sample events\<close>

definition alice :: tg_user where
  "alice = \<lparr>usr_id = 1001, usr_username = Some ''alice'', usr_name = ''@alice''\<rparr>"

definition bob :: tg_user where
  "bob = \<lparr>usr_id = 2002, usr_username = None, usr_name = ''Bob B''\<rparr>"

definition text_content :: content where
  "text_content =
     \<lparr>msg_message_id = 40, msg_chat_id = 1001, msg_chat_type = ''private'',
      msg_from_user = Some alice, msg_text = Some ''hello'', msg_entities = [],
      msg_photo = [], msg_voice = None, msg_audio = None, msg_video = None,
      msg_animation = None, msg_sticker = None, msg_poll = None, msg_reply_markup = None,
      msg_forward_from_message_id = None, msg_forward_from_chat_id = None\<rparr>"

definition text_message :: message where
  "text_message =
     \<lparr>msg_message_id = 41, msg_chat_id = 1001, msg_chat_type = ''private'',
      msg_from_user = Some alice, msg_text = Some ''ok'', msg_entities = [],
      msg_photo = [], msg_voice = None, msg_audio = None, msg_video = None,
      msg_animation = None, msg_sticker = None, msg_poll = None, msg_reply_markup = None,
      msg_forward_from_message_id = None, msg_forward_from_chat_id = None,
      msg_reply_to_message = Some text_content\<rparr>"

definition vote_query :: callback_query where
  "vote_query =
     \<lparr>cq_id = ''77'', cq_data = Some ''vote,12,yes'', cq_from_user = bob,
      cq_message = Some text_message\<rparr>"

definition vote_update :: update where
  "vote_update =
     \<lparr>upd_message = None, upd_edited_message = None, upd_callback_query = Some vote_query\<rparr>"

definition button_event :: event_info where
  "button_event =
     \<lparr>ei_message = Some text_message, ei_query = Some vote_query,
      ei_ctx_args = None, ei_show_preview = None\<rparr>"

definition command_event :: event_info where
  "command_event =
     \<lparr>ei_message = Some text_message, ei_query = None,
      ei_ctx_args = Some [''now''], ei_show_preview = None\<rparr>"

definition job_event :: event_info where
  "job_event =
     \<lparr>ei_message = None, ei_query = None, ei_ctx_args = None, ei_show_preview = None\<rparr>"

definition location_message :: message where
  "location_message = text_message\<lparr>msg_text := None\<rparr>"

definition location_event :: event_info where
  "location_event =
     \<lparr>ei_message = Some location_message, ei_query = None,
      ei_ctx_args = None, ei_show_preview = None\<rparr>"

definition sample_config :: config where
  "sample_config =
     \<lparr>cfg_admin_group_id = - 1001, cfg_channel_id = - 1002, cfg_community_group_id = - 1003,
      cfg_comments = False, cfg_group_id = Some (- 1001)\<rparr>"

definition comments_config :: config where
  "comments_config = sample_config\<lparr>cfg_comments := True\<rparr>"

definition empty_world :: world where
  "empty_world =
     \<lparr>calls = [], pending_posts = [], published_posts = [], bot_data = Map.empty\<rparr>"

text \<open>A poll with one vote for the first option, cast by the given voters.\<close>

definition day_poll :: "tg_user list \<Rightarrow> nat \<Rightarrow> bool \<Rightarrow> poll" where
  "day_poll voters n anonymous =
     \<lparr>poll_id = ''p1'', poll_question = ''Best day?'',
      poll_options = [\<lparr>opt_text = ''Mon'', opt_voter_count = n\<rparr>,
                      \<lparr>opt_text = ''Fri'', opt_voter_count = 0\<rparr>],
      poll_total_voter_count = n, poll_is_closed = False, poll_is_anonymous = anonymous,
      poll_type = ''regular'', poll_allows_multiple_answers = False,
      poll_correct_option_id = None, poll_voters = voters\<rparr>"

definition voted_poll :: poll where
  "voted_poll = day_poll [bob] 1 False"

definition fresh_poll :: poll where
  "fresh_poll = day_poll [] 0 True"

definition poll_content :: "poll \<Rightarrow> content" where
  "poll_content p = text_content\<lparr>msg_text := None, msg_poll := Some p\<rparr>"

definition poll_message :: "poll \<Rightarrow> message" where
  "poll_message p =
     text_message\<lparr>msg_text := None, msg_poll := Some p,
                  msg_reply_to_message := Some (poll_content p)\<rparr>"

definition poll_event :: "poll \<Rightarrow> event_info" where
  "poll_event p =
     \<lparr>ei_message = Some (poll_message p), ei_query = None,
      ei_ctx_args = None, ei_show_preview = None\<rparr>"

text \<open>The channel post \<open>600\<close> as it is forwarded into the community group.\<close>

definition forwarded_message :: message where
  "forwarded_message =
     text_message\<lparr>msg_message_id := 900, msg_chat_id := - 1003,
                  msg_forward_from_message_id := Some 600,
                  msg_forward_from_chat_id := Some (- 1002)\<rparr>"

definition forwarded_event :: event_info where
  "forwarded_event =
     \<lparr>ei_message = Some forwarded_message, ei_query = None,
      ei_ctx_args = None, ei_show_preview = None\<rparr>"

definition credited_world :: world where
  "credited_world = empty_world\<lparr>bot_data := [''-1002,600'' \<mapsto> 1001]\<rparr>"

definition pending :: "int \<Rightarrow> int \<Rightarrow> pending_post" where
  "pending g gm =
     \<lparr>pp_u_chat_id = 1001, pp_u_message_id = 40, pp_admin_group_id = g,
      pp_g_message_id = gm, pp_votes = []\<rparr>"

definition queue_world :: world where
  "queue_world =
     empty_world\<lparr>pending_posts :=
       [pending (- 1001) 510, pending (- 1001) 505, pending (- 1001) 500, pending (- 2000) 400]\<rparr>"

definition private_update :: update where
  "private_update =
     \<lparr>upd_message = Some text_message, upd_edited_message = None,
      upd_callback_query = None\<rparr>"

definition admin_update :: update where
  "admin_update =
     \<lparr>upd_message = None,
      upd_edited_message = Some (text_message\<lparr>msg_chat_id := - 1001\<rparr>),
      upd_callback_query = None\<rparr>"

text \<open>The keyboard a call attaches.\<close>

fun call_reply_markup :: "bot_call \<Rightarrow> keyboard option" where
  "call_reply_markup (SendPoll _ _ _ _ _ _ kb) = kb"
| "call_reply_markup (SendMessage _ _ kb _ _ _) = kb"
| "call_reply_markup (CopyMessage _ _ _ kb) = kb"
| "call_reply_markup (EditMessageReplyMarkup _ _ kb) = kb"

section \<open>Effects of the store operations\<close>

lemma do_call_sel:
  "calls (do_call c w) = calls w @ [c]"
  "pending_posts (do_call c w) = pending_posts w"
  "published_posts (do_call c w) = published_posts w"
  "bot_data (do_call c w) = bot_data w"
  by (simp_all add: do_call_def)

lemma PendingPost_create_sel:
  "calls (PendingPost_create um g gm w) = calls w"
  "pending_posts (PendingPost_create um g gm w) = pending_posts w @
     [\<lparr>pp_u_chat_id = msg_chat_id um, pp_u_message_id = msg_message_id um,
       pp_admin_group_id = g, pp_g_message_id = gm, pp_votes = []\<rparr>]"
  "published_posts (PendingPost_create um g gm w) = published_posts w"
  "bot_data (PendingPost_create um g gm w) = bot_data w"
  by (simp_all add: PendingPost_create_def)

lemma PublishedPost_create_sel:
  "calls (PublishedPost_create cm ch w) = calls w"
  "pending_posts (PublishedPost_create cm ch w) = pending_posts w"
  "published_posts (PublishedPost_create cm ch w) = published_posts w @
     [\<lparr>pub_channel_id = ch, pub_c_message_id = cm, pub_votes = []\<rparr>]"
  "bot_data (PublishedPost_create cm ch w) = bot_data w"
  by (simp_all add: PublishedPost_create_def)

lemma py_pop_present: "d k = Some v \<Longrightarrow> py_pop d k dflt = (v, d(k := None))"
  by (simp add: py_pop_def)

lemma py_pop_absent: "d k = None \<Longrightarrow> py_pop d k dflt = (dflt, d)"
  by (simp add: py_pop_def)

section \<open>Decimal rendering\<close>

text \<open>
  \<open>str\<close> of a number is a non-empty string of decimal digits and determines the number,
  so the key of a credit record determines the pair it was built from.
\<close>

lemma of_char_digit_char: "d < 10 \<Longrightarrow> (of_char (digit_char d) :: nat) = 48 + d"
  by (simp add: digit_char_def)

lemma digit_char_inj:
  assumes "d < 10" and "e < 10" and "digit_char d = digit_char e"
  shows "d = e"
proof -
  have "(of_char (digit_char d) :: nat) = of_char (digit_char e)"
    using assms(3) by (rule arg_cong)
  then have "48 + d = 48 + e"
    by (simp only: of_char_digit_char [OF assms(1)] of_char_digit_char [OF assms(2)])
  then show ?thesis by simp
qed

lemma str_nat_digits: "c \<in> set (str_nat n) \<Longrightarrow> 48 \<le> (of_char c :: nat) \<and> (of_char c :: nat) \<le> 57"
proof (induction n arbitrary: c rule: str_nat.induct)
  case (1 n)
  show ?case
  proof (cases "n < 10")
    case True
    then have "c = digit_char n" using "1.prems" by (simp add: str_nat.simps [of n])
    then show ?thesis using True of_char_digit_char [of n] by simp
  next
    case False
    then have "c \<in> set (str_nat (n div 10)) \<or> c = digit_char (n mod 10)"
      using "1.prems" by (auto simp: str_nat.simps [of n])
    then show ?thesis
    proof
      assume "c \<in> set (str_nat (n div 10))"
      then show ?thesis using "1.IH" False by simp
    next
      assume "c = digit_char (n mod 10)"
      then show ?thesis using of_char_digit_char [of "n mod 10"] by simp
    qed
  qed
qed

lemma str_nat_nonempty: "str_nat n \<noteq> []"
  by (simp add: str_nat.simps [of n])

lemma str_nat_inj: "str_nat n = str_nat m \<Longrightarrow> n = m"
proof (induction n arbitrary: m rule: str_nat.induct)
  case (1 n)
  show ?case
  proof (cases "n < 10")
    case n: True
    show ?thesis
    proof (cases "m < 10")
      case True
      then show ?thesis using n "1.prems" digit_char_inj [of n m]
        by (simp add: str_nat.simps [of n] str_nat.simps [of m])
    next
      case False
      then show ?thesis using n "1.prems" str_nat_nonempty [of "m div 10"]
        by (simp add: str_nat.simps [of n] str_nat.simps [of m])
    qed
  next
    case n: False
    show ?thesis
    proof (cases "m < 10")
      case True
      then show ?thesis using n "1.prems" str_nat_nonempty [of "n div 10"]
        by (simp add: str_nat.simps [of n] str_nat.simps [of m])
    next
      case False
      then have eq: "str_nat (n div 10) = str_nat (m div 10)"
        and dg: "digit_char (n mod 10) = digit_char (m mod 10)"
        using n "1.prems" by (simp_all add: str_nat.simps [of n] str_nat.simps [of m])
      have "n div 10 = m div 10" using "1.IH" [OF n eq] .
      moreover have "n mod 10 = m mod 10" using dg digit_char_inj by simp
      ultimately show ?thesis by (metis div_mult_mod_eq)
    qed
  qed
qed

lemma str_int_inj: "str_int i = str_int j \<Longrightarrow> i = j"
proof -
  assume h: "str_int i = str_int j"
  have nd: "\<And>n. hd (str_nat n) \<noteq> CHR ''-''"
  proof
    fix n assume a: "hd (str_nat n) = CHR ''-''"
    have "hd (str_nat n) \<in> set (str_nat n)" using str_nat_nonempty by simp
    then show False using str_nat_digits [of "hd (str_nat n)" n] a by simp
  qed
  show ?thesis
  proof (cases "i < 0")
    case i: True
    show ?thesis
    proof (cases "j < 0")
      case True
      then have "str_nat (nat (- i)) = str_nat (nat (- j))" using h i by (simp add: str_int_def)
      then have "nat (- i) = nat (- j)" by (rule str_nat_inj)
      then show ?thesis using i True by simp
    next
      case False
      then have "CHR ''-'' # str_nat (nat (- i)) = str_nat (nat j)" using h i by (simp add: str_int_def)
      then show ?thesis using nd [of "nat j"] by (metis list.sel(1))
    qed
  next
    case i: False
    show ?thesis
    proof (cases "j < 0")
      case True
      then have "CHR ''-'' # str_nat (nat (- j)) = str_nat (nat i)" using h i by (simp add: str_int_def)
      then show ?thesis using nd [of "nat i"] by (metis list.sel(1))
    next
      case False
      then have "str_nat (nat i) = str_nat (nat j)" using h i by (simp add: str_int_def)
      then have "nat i = nat j" by (rule str_nat_inj)
      then show ?thesis using i False by simp
    qed
  qed
qed

lemma str_int_no_comma: "CHR '','' \<notin> set (str_int i)"
  using str_nat_digits [of "CHR '',''"] by (auto simp: str_int_def)

lemma str_int_not_None: "str_int i \<noteq> ''None''"
proof
  assume a: "str_int i = ''None''"
  show False
  proof (cases "i < 0")
    case True then show ?thesis using a by (simp add: str_int_def)
  next
    case False
    then have "CHR ''N'' \<in> set (str_nat (nat i))" using a by (simp add: str_int_def)
    then show ?thesis using str_nat_digits [of "CHR ''N''"] by simp
  qed
qed

lemma str_opt_int_inj: "str_opt_int x = str_opt_int y \<Longrightarrow> x = y"
  using str_int_not_None str_int_inj
  by (cases x; cases y) (auto simp: str_opt_int_def simp del: not_None_eq)

lemma str_opt_int_no_comma: "CHR '','' \<notin> set (str_opt_int x)"
  using str_int_no_comma by (cases x) (auto simp: str_opt_int_def)

section \<open>Splitting and joining\<close>

lemma py_split_nonempty: "py_split sep s \<noteq> []"
  by (induction s) (auto split: list.splits)

lemma py_split_hd: "hd (py_split sep s) = takeWhile (\<lambda>c. c \<noteq> sep) s"
  by (induction s) (auto split: list.splits simp: py_split_nonempty)

lemma py_join_Cons: "fs \<noteq> [] \<Longrightarrow> py_join sep (f # fs) = f @ sep # py_join sep fs"
  by (cases fs) auto

lemma py_join_Cons_Cons: "py_join sep ((a # f) # fs) = a # py_join sep (f # fs)"
  by (cases fs) auto

lemma py_join_split: "py_join sep (py_split sep s) = s"
  by (induction s)
     (auto split: list.splits simp: py_split_nonempty py_join_Cons py_join_Cons_Cons)

lemma py_split_no_sep: "f \<in> set (py_split sep s) \<Longrightarrow> sep \<notin> set f"
  by (induction s arbitrary: f) (auto split: list.splits if_splits)

lemma py_split_append_sep:
  "sep \<notin> set f \<Longrightarrow> py_split sep (f @ sep # s) = f # py_split sep s"
  by (induction f) (auto split: list.splits)

lemma py_split_no_sep_id: "sep \<notin> set f \<Longrightarrow> py_split sep f = [f]"
  by (induction f) (auto split: list.splits)

text \<open>
  Splitting is the inverse of joining on every non-empty list of separator-free
  fields: the result of \<open>py_split\<close> is the only such list that joins to the input.
\<close>

lemma py_split_join:
  "fs \<noteq> [] \<Longrightarrow> (\<forall>f\<in>set fs. sep \<notin> set f) \<Longrightarrow> py_split sep (py_join sep fs) = fs"
  by (induction sep fs rule: py_join.induct)
     (auto simp: py_split_append_sep py_split_no_sep_id)

lemma py_split_length: "length (py_split sep s) = Suc (count_list s sep)"
  by (induction s) (auto split: list.splits simp: py_split_nonempty)

lemma credit_key_inj:
  assumes "credit_key c m = credit_key c' m'"
  shows "c = c' \<and> m = m'"
proof -
  have sp: "\<And>a b. py_split CHR '','' (credit_key a b) = [str_opt_int a, str_opt_int b]"
    using py_split_append_sep [OF str_opt_int_no_comma] py_split_no_sep_id [OF str_opt_int_no_comma]
    by (simp add: credit_key_def)
  have "[str_opt_int c, str_opt_int m] = [str_opt_int c', str_opt_int m']"
    using assms sp [of c m] sp [of c' m'] by simp
  then show ?thesis using str_opt_int_inj by simp
qed

section \<open>Forwarding a submission to the admins\<close>

lemma send_post_to_admins_cases:
  assumes "ei_message info = Some m" and "msg_reply_to_message m = Some r"
  shows "send_post_to_admins info cfg send w =
           (case send (admin_call info cfg r) of
              Inl e \<Rightarrow> (if e = BadRequest then Inr False else Inl e, do_call (admin_call info cfg r) w)
            | Inr g \<Rightarrow> (Inr True, PendingPost_create r (cfg_admin_group_id cfg) g
                                    (do_call (admin_call info cfg r) w)))"
  using assms by (simp add: send_post_to_admins_def Let_def split: sum.splits exn.splits)

lemma send_post_to_admins_calls:
  assumes "ei_message info = Some m" and "msg_reply_to_message m = Some r"
  shows "calls (snd (send_post_to_admins info cfg send w)) = calls w @ [admin_call info cfg r]"
  using assms
  by (simp add: send_post_to_admins_cases do_call_sel PendingPost_create_sel split: sum.splits)

text \<open>
  C1. For a submission (the message the event replies to) forwarded by
  \<open>send_post_to_admins\<close>: when the transport answers the copy with \<open>BadRequest\<close>, the
  function returns \<open>False\<close> and the pending posts are unchanged; when the copy succeeds
  with message identifier \<open>g\<close>, it returns \<open>True\<close> and exactly one pending post is
  appended, for the submitted message and the admin copy \<open>g\<close>, with no votes. In every
  case, a pending post is created exactly when the function returns \<open>True\<close>: never a
  failure together with a created record.
\<close>

theorem send_post_to_admins_outcome:
  "(\<forall>m r. ei_message info = Some m \<and> msg_reply_to_message m = Some r \<longrightarrow>
      (send (admin_call info cfg r) = Inl BadRequest \<longrightarrow>
         fst (send_post_to_admins info cfg send w) = Inr False
         \<and> pending_posts (snd (send_post_to_admins info cfg send w)) = pending_posts w)
      \<and> (\<forall>g. send (admin_call info cfg r) = Inr g \<longrightarrow>
         fst (send_post_to_admins info cfg send w) = Inr True
         \<and> pending_posts (snd (send_post_to_admins info cfg send w)) = pending_posts w @
             [\<lparr>pp_u_chat_id = msg_chat_id r, pp_u_message_id = msg_message_id r,
               pp_admin_group_id = cfg_admin_group_id cfg, pp_g_message_id = g,
               pp_votes = []\<rparr>]))
   \<and> (if fst (send_post_to_admins info cfg send w) = Inr True
       then length (pending_posts (snd (send_post_to_admins info cfg send w))) =
              Suc (length (pending_posts w))
       else pending_posts (snd (send_post_to_admins info cfg send w)) = pending_posts w)"
proof (intro conjI allI impI)
  fix m r
  assume h: "ei_message info = Some m \<and> msg_reply_to_message m = Some r"
  assume "send (admin_call info cfg r) = Inl BadRequest"
  then show "fst (send_post_to_admins info cfg send w) = Inr False"
    and "pending_posts (snd (send_post_to_admins info cfg send w)) = pending_posts w"
    using h by (simp_all add: send_post_to_admins_cases do_call_sel)
next
  fix m r g
  assume h: "ei_message info = Some m \<and> msg_reply_to_message m = Some r"
  assume "send (admin_call info cfg r) = Inr g"
  then show "fst (send_post_to_admins info cfg send w) = Inr True"
    and "pending_posts (snd (send_post_to_admins info cfg send w)) = pending_posts w @
             [\<lparr>pp_u_chat_id = msg_chat_id r, pp_u_message_id = msg_message_id r,
               pp_admin_group_id = cfg_admin_group_id cfg, pp_g_message_id = g,
               pp_votes = []\<rparr>]"
    using h by (simp_all add: send_post_to_admins_cases do_call_sel PendingPost_create_sel)
next
  show "if fst (send_post_to_admins info cfg send w) = Inr True
       then length (pending_posts (snd (send_post_to_admins info cfg send w))) =
              Suc (length (pending_posts w))
       else pending_posts (snd (send_post_to_admins info cfg send w)) = pending_posts w"
    by (auto simp: send_post_to_admins_def Let_def do_call_sel PendingPost_create_sel
             split: option.splits sum.splits exn.splits)
qed

theorem send_post_to_admins_outcome_witness:
  "ei_message command_event = Some text_message
   \<and> msg_reply_to_message text_message = Some text_content
   \<and> admin_call command_event sample_config text_content =
       CopyMessage (- 1001) 1001 40 (Some ApproveKb)
   \<and> fst (send_post_to_admins command_event sample_config (\<lambda>c. Inl BadRequest) empty_world)
       = Inr False
   \<and> pending_posts
         (snd (send_post_to_admins command_event sample_config (\<lambda>c. Inl BadRequest) empty_world))
       = []
   \<and> fst (send_post_to_admins command_event sample_config (\<lambda>c. Inr 500) empty_world) = Inr True
   \<and> pending_posts
         (snd (send_post_to_admins command_event sample_config (\<lambda>c. Inr 500) empty_world))
       = [\<lparr>pp_u_chat_id = 1001, pp_u_message_id = 40, pp_admin_group_id = - 1001,
           pp_g_message_id = 500, pp_votes = []\<rparr>]"
proof -
  have ev: "ei_message command_event = Some text_message
            \<and> msg_reply_to_message text_message = Some text_content"
    by (simp add: command_event_def text_message_def)
  have c: "admin_call command_event sample_config text_content =
             CopyMessage (- 1001) 1001 40 (Some ApproveKb)"
    by (simp add: admin_call_def text_with_entities_def text_content_def sample_config_def)
  show ?thesis
    using ev c
      send_post_to_admins_outcome
        [where info = command_event and cfg = sample_config
          and send = "\<lambda>c. Inl BadRequest" and w = empty_world]
      send_post_to_admins_outcome
        [where info = command_event and cfg = sample_config
          and send = "\<lambda>c. Inr 500" and w = empty_world]
    by (simp add: empty_world_def text_content_def sample_config_def)
qed

section \<open>Copies of polls\<close>

lemma send_poll_call_cong:
  assumes "poll_question p1 = poll_question p2"
    and "map opt_text (poll_options p1) = map opt_text (poll_options p2)"
    and "poll_type p1 = poll_type p2"
    and "poll_allows_multiple_answers p1 = poll_allows_multiple_answers p2"
    and "poll_correct_option_id p1 = poll_correct_option_id p2"
  shows "send_poll_call dest p1 kb = send_poll_call dest p2 kb"
  using assms by (simp add: send_poll_call_def)

lemma send_post_to_channel_calls:
  assumes "ei_message info = Some m"
  shows "calls (snd (send_post_to_channel info uid cfg send w)) = calls w @ [channel_call cfg m]"
  using assms
  by (simp add: send_post_to_channel_def Let_def do_call_sel PublishedPost_create_sel
           split: sum.splits)

text \<open>
  C2. A poll is recreated, in the admin group and in the channel, by one \<open>send_poll\<close>
  call built from the question, the option texts, the type, the multiple-answers flag
  and the correct option of the original. Two originals that agree on these five, and
  differ in anything else (voters, vote counts, anonymity), give the same calls and the
  same result.
\<close>

theorem poll_copy_ignores_voters:
  assumes same: "poll_question p1 = poll_question p2"
      "map opt_text (poll_options p1) = map opt_text (poll_options p2)"
      "poll_type p1 = poll_type p2"
      "poll_allows_multiple_answers p1 = poll_allows_multiple_answers p2"
      "poll_correct_option_id p1 = poll_correct_option_id p2"
  shows
    "(\<forall>m1 r1 m2 r2.
        ei_message i1 = Some m1 \<and> msg_reply_to_message m1 = Some r1 \<and> msg_poll r1 = Some p1
        \<and> ei_message i2 = Some m2 \<and> msg_reply_to_message m2 = Some r2 \<and> msg_poll r2 = Some p2
        \<longrightarrow>
        calls (snd (send_post_to_admins i1 cfg send w)) =
          calls w @ [SendPoll (cfg_admin_group_id cfg) (poll_question p1)
                       (map opt_text (poll_options p1)) (poll_type p1)
                       (poll_allows_multiple_answers p1) (poll_correct_option_id p1)
                       (Some ApproveKb)]
        \<and> calls (snd (send_post_to_admins i2 cfg send w)) =
            calls (snd (send_post_to_admins i1 cfg send w))
        \<and> fst (send_post_to_admins i2 cfg send w) = fst (send_post_to_admins i1 cfg send w))
     \<and> (\<forall>m1 m2.
        ei_message i1 = Some m1 \<and> msg_poll m1 = Some p1
        \<and> ei_message i2 = Some m2 \<and> msg_poll m2 = Some p2
        \<longrightarrow>
        calls (snd (send_post_to_channel i1 uid cfg send w)) =
          calls w @ [SendPoll (cfg_channel_id cfg) (poll_question p1)
                       (map opt_text (poll_options p1)) (poll_type p1)
                       (poll_allows_multiple_answers p1) (poll_correct_option_id p1)
                       (if cfg_comments cfg then None else Some PublishedPostKb)]
        \<and> calls (snd (send_post_to_channel i2 uid cfg send w)) =
            calls (snd (send_post_to_channel i1 uid cfg send w))
        \<and> fst (send_post_to_channel i2 uid cfg send w) =
            fst (send_post_to_channel i1 uid cfg send w))"
proof (intro conjI allI impI)
  fix m1 r1 m2 r2
  assume h: "ei_message i1 = Some m1 \<and> msg_reply_to_message m1 = Some r1 \<and> msg_poll r1 = Some p1
        \<and> ei_message i2 = Some m2 \<and> msg_reply_to_message m2 = Some r2 \<and> msg_poll r2 = Some p2"
  have c1: "admin_call i1 cfg r1 = send_poll_call (cfg_admin_group_id cfg) p1 (Some ApproveKb)"
    using h by (simp add: admin_call_def)
  have c2: "admin_call i2 cfg r2 = send_poll_call (cfg_admin_group_id cfg) p2 (Some ApproveKb)"
    using h by (simp add: admin_call_def)
  have eq: "admin_call i2 cfg r2 = admin_call i1 cfg r1"
    using c1 c2 send_poll_call_cong [OF same] by simp
  show "calls (snd (send_post_to_admins i1 cfg send w)) =
          calls w @ [SendPoll (cfg_admin_group_id cfg) (poll_question p1)
                       (map opt_text (poll_options p1)) (poll_type p1)
                       (poll_allows_multiple_answers p1) (poll_correct_option_id p1)
                       (Some ApproveKb)]"
    using h c1 by (simp add: send_post_to_admins_calls send_poll_call_def)
  show "calls (snd (send_post_to_admins i2 cfg send w)) =
            calls (snd (send_post_to_admins i1 cfg send w))"
    using h eq by (simp add: send_post_to_admins_calls)
  show "fst (send_post_to_admins i2 cfg send w) = fst (send_post_to_admins i1 cfg send w)"
    using h eq by (simp add: send_post_to_admins_cases split: sum.splits)
next
  fix m1 m2
  assume h: "ei_message i1 = Some m1 \<and> msg_poll m1 = Some p1
        \<and> ei_message i2 = Some m2 \<and> msg_poll m2 = Some p2"
  have c1: "channel_call cfg m1 = send_poll_call (cfg_channel_id cfg) p1
              (if cfg_comments cfg then None else Some PublishedPostKb)"
    using h by (simp add: channel_call_def)
  have c2: "channel_call cfg m2 = send_poll_call (cfg_channel_id cfg) p2
              (if cfg_comments cfg then None else Some PublishedPostKb)"
    using h by (simp add: channel_call_def)
  have eq: "channel_call cfg m2 = channel_call cfg m1"
    using c1 c2 send_poll_call_cong [OF same] by simp
  show "calls (snd (send_post_to_channel i1 uid cfg send w)) =
          calls w @ [SendPoll (cfg_channel_id cfg) (poll_question p1)
                       (map opt_text (poll_options p1)) (poll_type p1)
                       (poll_allows_multiple_answers p1) (poll_correct_option_id p1)
                       (if cfg_comments cfg then None else Some PublishedPostKb)]"
    using h c1 by (simp add: send_post_to_channel_calls send_poll_call_def)
  show "calls (snd (send_post_to_channel i2 uid cfg send w)) =
            calls (snd (send_post_to_channel i1 uid cfg send w))"
    using h eq by (simp add: send_post_to_channel_calls)
  show "fst (send_post_to_channel i2 uid cfg send w) =
            fst (send_post_to_channel i1 uid cfg send w)"
    using h eq by (simp add: send_post_to_channel_def Let_def split: sum.splits)
qed

theorem poll_copy_ignores_voters_witness:
  "poll_voters voted_poll \<noteq> poll_voters fresh_poll
   \<and> calls (snd (send_post_to_admins (poll_event voted_poll) sample_config
                   (\<lambda>c. Inr 500) empty_world))
       = [SendPoll (- 1001) ''Best day?'' [''Mon'', ''Fri''] ''regular'' False None
            (Some ApproveKb)]
   \<and> calls (snd (send_post_to_admins (poll_event fresh_poll) sample_config
                   (\<lambda>c. Inr 500) empty_world))
       = calls (snd (send_post_to_admins (poll_event voted_poll) sample_config
                   (\<lambda>c. Inr 500) empty_world))
   \<and> calls (snd (send_post_to_channel (poll_event voted_poll) 1001 sample_config
                   (\<lambda>c. Inr 600) empty_world))
       = [SendPoll (- 1002) ''Best day?'' [''Mon'', ''Fri''] ''regular'' False None
            (Some PublishedPostKb)]
   \<and> calls (snd (send_post_to_channel (poll_event fresh_poll) 1001 sample_config
                   (\<lambda>c. Inr 600) empty_world))
       = calls (snd (send_post_to_channel (poll_event voted_poll) 1001 sample_config
                   (\<lambda>c. Inr 600) empty_world))"
proof -
  let ?p1 = voted_poll and ?p2 = fresh_poll
  have same: "poll_question ?p1 = poll_question ?p2"
      "map opt_text (poll_options ?p1) = map opt_text (poll_options ?p2)"
      "poll_type ?p1 = poll_type ?p2"
      "poll_allows_multiple_answers ?p1 = poll_allows_multiple_answers ?p2"
      "poll_correct_option_id ?p1 = poll_correct_option_id ?p2"
    by (simp_all add: voted_poll_def fresh_poll_def day_poll_def)
  have ev: "ei_message (poll_event p) = Some (poll_message p)
            \<and> msg_reply_to_message (poll_message p) = Some (poll_content p)
            \<and> msg_poll (poll_content p) = Some p \<and> msg_poll (poll_message p) = Some p" for p
    by (simp add: poll_event_def poll_message_def poll_content_def)
  have v: "poll_voters ?p1 \<noteq> poll_voters ?p2"
    by (simp add: voted_poll_def fresh_poll_def day_poll_def)
  have f: "poll_question ?p1 = ''Best day?''"
      "map opt_text (poll_options ?p1) = [''Mon'', ''Fri'']"
      "poll_type ?p1 = ''regular''"
      "poll_allows_multiple_answers ?p1 = False"
      "poll_correct_option_id ?p1 = None"
    by (simp_all add: voted_poll_def fresh_poll_def day_poll_def)
  show ?thesis
    using v ev [of ?p1] ev [of ?p2]
      poll_copy_ignores_voters [OF same, where ?i1.0 = "poll_event ?p1"
        and ?i2.0 = "poll_event ?p2" and cfg = sample_config and send = "\<lambda>c. Inr 500"
        and w = empty_world and uid = 1001]
      poll_copy_ignores_voters [OF same, where ?i1.0 = "poll_event ?p1"
        and ?i2.0 = "poll_event ?p2" and cfg = sample_config and send = "\<lambda>c. Inr 600"
        and w = empty_world and uid = 1001]
    by (simp add: f empty_world_def sample_config_def)
qed

section \<open>Publishing to the channel\<close>

text \<open>
  C3. When \<open>send_post_to_channel\<close> has a message and the transport accepts the copy as
  message \<open>c_message_id\<close>: with comments disabled, one published post is appended for the
  channel and that message, with no votes, the copy carries the vote keyboard, and
  \<open>bot_data\<close> (the credit records) is unchanged; with comments enabled, the published
  posts are unchanged, the copy carries no keyboard, and \<open>bot_data\<close> maps the key built
  from the channel and the message identifier to the submitter. The calls on the bot do
  not depend on the submitter.
\<close>

theorem send_post_to_channel_outcome:
  assumes msg: "ei_message info = Some m"
    and sent: "send (channel_call cfg m) = Inr c_message_id"
  shows
    "fst (send_post_to_channel info uid cfg send w) = Inr ()
     \<and> calls (snd (send_post_to_channel info uid cfg send w)) = calls w @ [channel_call cfg m]
     \<and> calls (snd (send_post_to_channel info uid' cfg send w)) =
         calls (snd (send_post_to_channel info uid cfg send w))
     \<and> (\<not> cfg_comments cfg \<longrightarrow>
          published_posts (snd (send_post_to_channel info uid cfg send w)) =
            published_posts w @
              [\<lparr>pub_channel_id = cfg_channel_id cfg, pub_c_message_id = c_message_id,
                pub_votes = []\<rparr>]
          \<and> call_reply_markup (channel_call cfg m) = Some PublishedPostKb
          \<and> bot_data (snd (send_post_to_channel info uid cfg send w)) = bot_data w)
     \<and> (cfg_comments cfg \<longrightarrow>
          published_posts (snd (send_post_to_channel info uid cfg send w)) = published_posts w
          \<and> call_reply_markup (channel_call cfg m) = None
          \<and> bot_data (snd (send_post_to_channel info uid cfg send w)) =
              (bot_data w)(credit_key (Some (cfg_channel_id cfg)) (Some c_message_id) \<mapsto> uid))"
proof (intro conjI impI)
  show "fst (send_post_to_channel info uid cfg send w) = Inr ()"
    using msg sent by (simp add: send_post_to_channel_def Let_def)
  show "calls (snd (send_post_to_channel info uid cfg send w)) = calls w @ [channel_call cfg m]"
    using msg by (rule send_post_to_channel_calls)
  show "calls (snd (send_post_to_channel info uid' cfg send w)) =
         calls (snd (send_post_to_channel info uid cfg send w))"
    using msg by (simp add: send_post_to_channel_calls)
next
  assume off: "\<not> cfg_comments cfg"
  show "published_posts (snd (send_post_to_channel info uid cfg send w)) =
            published_posts w @
              [\<lparr>pub_channel_id = cfg_channel_id cfg, pub_c_message_id = c_message_id,
                pub_votes = []\<rparr>]"
    using msg sent off
    by (simp add: send_post_to_channel_def Let_def do_call_sel PublishedPost_create_sel)
  show "call_reply_markup (channel_call cfg m) = Some PublishedPostKb"
    using off by (simp add: channel_call_def send_poll_call_def Let_def split: option.splits)
  show "bot_data (snd (send_post_to_channel info uid cfg send w)) = bot_data w"
    using msg sent off
    by (simp add: send_post_to_channel_def Let_def do_call_sel PublishedPost_create_sel)
next
  assume on: "cfg_comments cfg"
  show "published_posts (snd (send_post_to_channel info uid cfg send w)) = published_posts w"
    using msg sent on by (simp add: send_post_to_channel_def Let_def do_call_sel)
  show "call_reply_markup (channel_call cfg m) = None"
    using on by (simp add: channel_call_def send_poll_call_def Let_def split: option.splits)
  show "bot_data (snd (send_post_to_channel info uid cfg send w)) =
              (bot_data w)(credit_key (Some (cfg_channel_id cfg)) (Some c_message_id) \<mapsto> uid)"
    using msg sent on by (simp add: send_post_to_channel_def Let_def do_call_sel)
qed

theorem send_post_to_channel_outcome_witness:
  "ei_message command_event = Some text_message
   \<and> channel_call sample_config text_message = CopyMessage (- 1002) 1001 41 (Some PublishedPostKb)
   \<and> published_posts
         (snd (send_post_to_channel command_event 1001 sample_config (\<lambda>c. Inr 600) empty_world))
       = [\<lparr>pub_channel_id = - 1002, pub_c_message_id = 600, pub_votes = []\<rparr>]
   \<and> bot_data
         (snd (send_post_to_channel command_event 1001 sample_config (\<lambda>c. Inr 600) empty_world))
       = Map.empty
   \<and> channel_call comments_config text_message = CopyMessage (- 1002) 1001 41 None
   \<and> published_posts
         (snd (send_post_to_channel command_event 1001 comments_config (\<lambda>c. Inr 600) empty_world))
       = []
   \<and> bot_data
         (snd (send_post_to_channel command_event 1001 comments_config (\<lambda>c. Inr 600) empty_world))
       = [''-1002,600'' \<mapsto> 1001]"
proof -
  have ev: "ei_message command_event = Some text_message"
    by (simp add: command_event_def)
  have c1: "channel_call sample_config text_message =
              CopyMessage (- 1002) 1001 41 (Some PublishedPostKb)"
    by (simp add: channel_call_def sample_config_def text_message_def)
  have c2: "channel_call comments_config text_message = CopyMessage (- 1002) 1001 41 None"
    by (simp add: channel_call_def comments_config_def sample_config_def text_message_def)
  have k: "credit_key (Some (- 1002)) (Some 600) = ''-1002,600''"
    by code_simp
  have cfg: "cfg_channel_id sample_config = - 1002" "cfg_channel_id comments_config = - 1002"
      "\<not> cfg_comments sample_config" "cfg_comments comments_config"
    by (simp_all add: comments_config_def sample_config_def)
  show ?thesis
    using ev c1 c2
      send_post_to_channel_outcome
        [where info = command_event and m = text_message and send = "\<lambda>c. Inr 600"
          and cfg = sample_config and c_message_id = 600 and uid = 1001 and w = empty_world
          and uid' = 1001]
      send_post_to_channel_outcome
        [where info = command_event and m = text_message and send = "\<lambda>c. Inr 600"
          and cfg = comments_config and c_message_id = 600 and uid = 1001 and w = empty_world
          and uid' = 1001]
    by (simp add: cfg k empty_world_def)
qed

section \<open>Crediting the submitter\<close>

lemma send_post_to_channel_group_pop:
  "fst (send_post_to_channel_group info cfg sign send w) =
     fst (py_pop (bot_data w) (credit_key (forward_from_chat_id info) (forward_from_id info)) (- 1))
   \<and> bot_data (snd (snd (send_post_to_channel_group info cfg sign send w))) =
     snd (py_pop (bot_data w) (credit_key (forward_from_chat_id info) (forward_from_id info)) (- 1))"
  by (simp add: send_post_to_channel_group_def Let_def do_call_sel PublishedPost_create_sel
           split: prod.splits sum.splits option.splits)

text \<open>
  C4. When \<open>bot_data\<close> holds a credit record under the key of the forwarded post,
  \<open>send_post_to_channel_group\<close> resolves the stored submitter and removes the record, and
  nothing else, from \<open>bot_data\<close>, whatever the sign lookup and the transport then do; a
  second run for the same post resolves \<open>-1\<close>, the value the code uses for no submitter.
  When the sign lookup and the transport succeed, the message sent is the sign of the
  stored submitter.
\<close>

theorem credit_resolved_once:
  assumes stored: "bot_data w (credit_key (forward_from_chat_id info) (forward_from_id info)) = Some u"
  shows
    "fst (send_post_to_channel_group info cfg sign send w) = u
     \<and> bot_data (snd (snd (send_post_to_channel_group info cfg sign send w))) =
         (bot_data w)(credit_key (forward_from_chat_id info) (forward_from_id info) := None)
     \<and> fst (send_post_to_channel_group info cfg sign' send'
              (snd (snd (send_post_to_channel_group info cfg sign send w)))) = - 1
     \<and> (\<forall>s m x. sign u = Inr s \<and> ei_message info = Some m
           \<and> send (SendMessage (cfg_community_group_id cfg) (''by: '' @ s) (Some PublishedPostKb)
                     [] None (Some (msg_message_id m))) = Inr x \<longrightarrow>
         calls (snd (snd (send_post_to_channel_group info cfg sign send w))) =
           calls w @ [SendMessage (cfg_community_group_id cfg) (''by: '' @ s)
                        (Some PublishedPostKb) [] None (Some (msg_message_id m))])"
proof (intro conjI allI impI)
  let ?k = "credit_key (forward_from_chat_id info) (forward_from_id info)"
  have pop: "py_pop (bot_data w) ?k (- 1) = (u, (bot_data w)(?k := None))"
    using stored by (rule py_pop_present)
  show 1: "fst (send_post_to_channel_group info cfg sign send w) = u"
    using send_post_to_channel_group_pop [of info cfg sign send w] pop by simp
  show 2: "bot_data (snd (snd (send_post_to_channel_group info cfg sign send w))) =
         (bot_data w)(?k := None)"
    using send_post_to_channel_group_pop [of info cfg sign send w] pop by simp
  have "bot_data (snd (snd (send_post_to_channel_group info cfg sign send w))) ?k = None"
    using 2 by simp
  then have "py_pop (bot_data (snd (snd (send_post_to_channel_group info cfg sign send w)))) ?k (- 1)
             = (- 1, bot_data (snd (snd (send_post_to_channel_group info cfg sign send w))))"
    by (rule py_pop_absent)
  then show "fst (send_post_to_channel_group info cfg sign' send'
              (snd (snd (send_post_to_channel_group info cfg sign send w)))) = - 1"
    using send_post_to_channel_group_pop
            [of info cfg sign' send' "snd (snd (send_post_to_channel_group info cfg sign send w))"]
    by simp
  fix s m x
  assume "sign u = Inr s \<and> ei_message info = Some m
           \<and> send (SendMessage (cfg_community_group_id cfg) (''by: '' @ s) (Some PublishedPostKb)
                     [] None (Some (msg_message_id m))) = Inr x"
  then show "calls (snd (snd (send_post_to_channel_group info cfg sign send w))) =
           calls w @ [SendMessage (cfg_community_group_id cfg) (''by: '' @ s)
                        (Some PublishedPostKb) [] None (Some (msg_message_id m))]"
    using pop
    by (simp add: send_post_to_channel_group_def Let_def do_call_sel PublishedPost_create_sel)
qed

theorem credit_resolved_once_witness:
  "bot_data credited_world
       (credit_key (forward_from_chat_id forwarded_event) (forward_from_id forwarded_event))
     = Some 1001
   \<and> fst (send_post_to_channel_group forwarded_event comments_config (\<lambda>u. Inr (str_int u))
            (\<lambda>c. Inr 901) credited_world) = 1001
   \<and> bot_data (snd (snd (send_post_to_channel_group forwarded_event comments_config
            (\<lambda>u. Inr (str_int u)) (\<lambda>c. Inr 901) credited_world))) = Map.empty
   \<and> fst (send_post_to_channel_group forwarded_event comments_config (\<lambda>u. Inr (str_int u))
            (\<lambda>c. Inr 902)
            (snd (snd (send_post_to_channel_group forwarded_event comments_config
               (\<lambda>u. Inr (str_int u)) (\<lambda>c. Inr 901) credited_world)))) = - 1"
proof -
  have k: "credit_key (forward_from_chat_id forwarded_event) (forward_from_id forwarded_event)
             = ''-1002,600''"
    by code_simp
  have stored: "bot_data credited_world
       (credit_key (forward_from_chat_id forwarded_event) (forward_from_id forwarded_event))
     = Some 1001"
    by (simp add: k credited_world_def)
  have e: "[''-1002,600'' \<mapsto> 1001::int](''-1002,600'' := None) = Map.empty"
    by simp
  show ?thesis
    using stored
      credit_resolved_once [OF stored, where cfg = comments_config
        and sign = "\<lambda>u. Inr (str_int u)" and send = "\<lambda>c. Inr 901"
        and sign' = "\<lambda>u. Inr (str_int u)" and send' = "\<lambda>c. Inr 902"]
    by (simp add: k e credited_world_def empty_world_def)
qed

text \<open>
  The two handlers fit together: the record that \<open>send_post_to_channel\<close> stores for a
  post is the one that \<open>send_post_to_channel_group\<close> resolves when the post is forwarded
  from the channel.
\<close>

lemma credit_round_trip:
  assumes on: "cfg_comments cfg"
    and msg: "ei_message pub = Some m"
    and sent: "send (channel_call cfg m) = Inr c_message_id"
    and fwd: "forward_from_chat_id fwd = Some (cfg_channel_id cfg)"
      "forward_from_id fwd = Some c_message_id"
  shows "fst (send_post_to_channel_group fwd cfg sign send'
                (snd (send_post_to_channel pub uid cfg send w))) = uid"
proof -
  let ?w = "snd (send_post_to_channel pub uid cfg send w)"
  let ?k = "credit_key (forward_from_chat_id fwd) (forward_from_id fwd)"
  have "bot_data ?w = (bot_data w)(?k \<mapsto> uid)"
    using on msg sent fwd by (simp add: send_post_to_channel_def Let_def do_call_sel)
  then have "bot_data ?w ?k = Some uid"
    by simp
  then have "py_pop (bot_data ?w) ?k (- 1) = (uid, (bot_data ?w)(?k := None))"
    by (rule py_pop_present)
  then show ?thesis
    using send_post_to_channel_group_pop [of fwd cfg sign send' ?w] by simp
qed

section \<open>Reminder after a decision\<close>

lemma hd_sort_key_Min:
  fixes f :: "'a \<Rightarrow> 'b::linorder"
  assumes "xs \<noteq> []"
  shows "f (hd (sort_key f xs)) = Min (f ` set xs)"
proof -
  have ne: "sort_key f xs \<noteq> []"
    using assms by (metis length_sort length_0_conv)
  then obtain y ys where ys: "sort_key f xs = y # ys"
    by (cases "sort_key f xs") auto
  have srt: "sorted (map f (sort_key f xs))"
    by (rule sorted_sort_key)
  have mem: "y \<in> set xs"
    using ys by (metis list.set_intros(1) set_sort)
  have le: "\<forall>z \<in> set xs. f y \<le> f z"
  proof
    fix z assume "z \<in> set xs"
    then have "z \<in> set (y # ys)" using ys by (metis set_sort)
    then show "f y \<le> f z" using srt ys by auto
  qed
  have "Min (f ` set xs) = f y"
    by (rule Min_eqI) (use mem le in auto)
  then show ?thesis using ys by simp
qed

text \<open>
  C5. When the outcome keyboard has been built and the message of the decided post has
  been edited, \<open>show_admins_votes\<close> looks at the pending posts of the same admin group
  other than the decided one. If there are none, the edit is the only call and no
  reminder is sent. Otherwise exactly one reminder follows the edit: its text shows the
  number of these posts and it replies to the one with the smallest admin message
  identifier.
\<close>

theorem show_admins_votes_reminder:
  assumes built: "kb_of (pp_votes pp) reason = Inr kb"
    and edited: "send (EditMessageReplyMarkup (pp_admin_group_id pp) (pp_g_message_id pp)
                     (Some kb)) = Inr x"
  shows
    "(let remaining = filter (\<lambda>p. pp_admin_group_id p = pp_admin_group_id pp
                                 \<and> pp_g_message_id p \<noteq> pp_g_message_id pp) (pending_posts w);
          edit = EditMessageReplyMarkup (pp_admin_group_id pp) (pp_g_message_id pp) (Some kb)
      in if remaining = [] then
           show_admins_votes pp reason kb_of send w = (Inr (), do_call edit w)
         else
           calls (snd (show_admins_votes pp reason kb_of send w)) =
             calls w @ [edit,
               SendMessage (pp_admin_group_id pp) (reminder_text (length remaining)) None [] None
                 (Some (Min (pp_g_message_id ` set remaining)))])"
proof -
  let ?R = "filter (\<lambda>p. pp_admin_group_id p = pp_admin_group_id pp
                                 \<and> pp_g_message_id p \<noteq> pp_g_message_id pp) (pending_posts w)"
  let ?edit = "EditMessageReplyMarkup (pp_admin_group_id pp) (pp_g_message_id pp) (Some kb)"
  have R: "filter (\<lambda>post. pp_g_message_id post \<noteq> pp_g_message_id pp)
             (PendingPost_get_all (pp_admin_group_id pp) (do_call ?edit w)) = ?R"
    by (simp add: PendingPost_get_all_def do_call_sel conj_commute)
  show ?thesis
  proof (cases "?R = []")
    case True
    then show ?thesis
      using built edited R by (simp add: show_admins_votes_def Let_def)
  next
    case False
    then obtain y ys where ys: "sort_key pp_g_message_id ?R = y # ys"
      by (cases "sort_key pp_g_message_id ?R") (auto dest: arg_cong [where f = length])
    have "pp_g_message_id y = Min (pp_g_message_id ` set ?R)"
      using hd_sort_key_Min [OF False, of pp_g_message_id] ys by simp
    moreover have "length ?R = Suc (length ys)"
      using ys by (metis length_sort length_Cons)
    ultimately show ?thesis
      using built edited R False ys
      by (simp add: show_admins_votes_def Let_def py_index0_def do_call_sel split: sum.splits)
  qed
qed

theorem show_admins_votes_reminder_witness:
  "calls (snd (show_admins_votes (pending (- 1001) 500) None
                 (\<lambda>votes reason. Inr (PostOutcomeKb votes reason)) (\<lambda>c. Inr 0) queue_world))
     = [EditMessageReplyMarkup (- 1001) 500 (Some (PostOutcomeKb [] None)),
        SendMessage (- 1001) (reminder_text 2) None [] None (Some 505)]
   \<and> show_admins_votes (pending (- 1001) 500) None
        (\<lambda>votes reason. Inr (PostOutcomeKb votes reason)) (\<lambda>c. Inr 0)
        (empty_world\<lparr>pending_posts := [pending (- 1001) 500, pending (- 2000) 400]\<rparr>)
     = (Inr (),
        do_call (EditMessageReplyMarkup (- 1001) 500 (Some (PostOutcomeKb [] None)))
          (empty_world\<lparr>pending_posts := [pending (- 1001) 500, pending (- 2000) 400]\<rparr>))"
proof -
  have two: "Suc (Suc 0) = 2"
    by simp
  show ?thesis
    using
      show_admins_votes_reminder [where pp = "pending (- 1001) 500" and reason = None
        and kb_of = "\<lambda>votes reason. Inr (PostOutcomeKb votes reason)"
        and kb = "PostOutcomeKb [] None"
        and send = "\<lambda>c. Inr 0" and x = 0 and w = queue_world]
      show_admins_votes_reminder [where pp = "pending (- 1001) 500" and reason = None
        and kb_of = "\<lambda>votes reason. Inr (PostOutcomeKb votes reason)"
        and kb = "PostOutcomeKb [] None"
        and send = "\<lambda>c. Inr 0" and x = 0
        and w = "empty_world\<lparr>pending_posts := [pending (- 1001) 500, pending (- 2000) 400]\<rparr>"]
    by (simp add: Let_def queue_world_def empty_world_def pending_def two)
qed

section \<open>Callback data\<close>

text \<open>
  C7. Parsing callback data never raises: \<open>callback_key\<close> always returns a string. When
  the event has a query with data, the key is the part of the data before the first
  comma (all of it when there is none) and the arguments are the comma-separated fields
  after the first: key and arguments joined by commas give the data back, no argument
  contains a comma, and there is one argument per comma. When there is no query or the
  query has no data, the key is the empty string and the arguments are those of the
  context, or the empty list when the context has none.
\<close>

theorem callback_key_args_parse:
  "(\<exists>k. callback_key info = Inr k)
   \<and> (\<forall>q d. ei_query info = Some q \<and> cq_data q = Some d \<longrightarrow>
         callback_key info = Inr (takeWhile (\<lambda>c. c \<noteq> CHR '','') d)
         \<and> args info = tl (py_split CHR '','' d)
         \<and> py_join CHR '','' (takeWhile (\<lambda>c. c \<noteq> CHR '','') d # args info) = d
         \<and> (\<forall>a \<in> set (args info). CHR '','' \<notin> set a)
         \<and> length (args info) = count_list d CHR '','')
   \<and> (ei_query info = None \<or> (\<exists>q. ei_query info = Some q \<and> cq_data q = None) \<longrightarrow>
         callback_key info = Inr []
         \<and> args info = (case ei_ctx_args info of Some a \<Rightarrow> a | None \<Rightarrow> []))"
proof (intro conjI allI impI)
  show "\<exists>k. callback_key info = Inr k"
    by (cases "py_split CHR '','' (the (cq_data (the (ei_query info))))")
       (auto simp: callback_key_def py_index0_def py_split_nonempty
             split: option.splits list.splits)
next
  fix q d
  assume h: "ei_query info = Some q \<and> cq_data q = Some d"
  obtain f fs where sp: "py_split CHR '','' d = f # fs"
    by (cases "py_split CHR '','' d") (auto simp: py_split_nonempty)
  have f: "f = takeWhile (\<lambda>c. c \<noteq> CHR '','') d"
    using py_split_hd [of "CHR '',''" d] sp by simp
  show "callback_key info = Inr (takeWhile (\<lambda>c. c \<noteq> CHR '','') d)"
    using h sp f by (simp add: callback_key_def py_index0_def)
  show a: "args info = tl (py_split CHR '','' d)"
    using h sp by (cases fs) (simp_all add: args_def Let_def)
  show "py_join CHR '','' (takeWhile (\<lambda>c. c \<noteq> CHR '','') d # args info) = d"
    using a sp f py_join_split [of "CHR '',''" d] by simp
  show "\<forall>a \<in> set (args info). CHR '','' \<notin> set a"
    using a sp py_split_no_sep [of _ "CHR '',''" d] by simp
  show "length (args info) = count_list d CHR '',''"
    using a py_split_length [of "CHR '',''" d] by simp
next
  assume "ei_query info = None \<or> (\<exists>q. ei_query info = Some q \<and> cq_data q = None)"
  then show "callback_key info = Inr []"
    by (auto simp: callback_key_def)
next
  assume "ei_query info = None \<or> (\<exists>q. ei_query info = Some q \<and> cq_data q = None)"
  then show "args info = (case ei_ctx_args info of Some a \<Rightarrow> a | None \<Rightarrow> [])"
    by (auto simp: args_def)
qed

theorem callback_key_args_parse_witness:
  "ei_query button_event = Some vote_query \<and> cq_data vote_query = Some ''vote,12,yes''
   \<and> callback_key button_event = Inr ''vote''
   \<and> args button_event = [''12'', ''yes'']
   \<and> ei_query command_event = None
   \<and> callback_key command_event = Inr []
   \<and> args command_event = [''now'']"
  using callback_key_args_parse [of button_event] callback_key_args_parse [of command_event]
  by (simp add: button_event_def command_event_def vote_query_def)

section \<open>Supported content\<close>

text \<open>
  C6. A message is accepted as a valid submission exactly when it is present and
  matches one of the eight supported kinds (text, photo, voice, audio, video, animation,
  sticker, poll); an absent message, and a message that matches none of them, is
  rejected.
\<close>

theorem is_valid_message_type_iff:
  "is_valid_message_type info \<longleftrightarrow> (\<exists>m k. ei_message info = Some m \<and> matches_kind m k)"
proof (cases "ei_message info")
  case None
  then show ?thesis by (simp add: is_valid_message_type_def)
next
  case (Some m)
  have "(\<exists>k. matches_kind m k) \<longleftrightarrow>
        (matches_kind m Text \<or> matches_kind m Photo \<or> matches_kind m Voice
         \<or> matches_kind m Audio \<or> matches_kind m Video \<or> matches_kind m Animation
         \<or> matches_kind m Sticker \<or> matches_kind m Poll)"
    by (metis kind.exhaust)
  then show ?thesis using Some
    by (auto simp: is_valid_message_type_def truthy_str_def truthy_obj_def
             split: option.splits)
qed

theorem is_valid_message_type_iff_witness:
  "ei_message command_event = Some text_message
   \<and> matches_kind text_message Text
   \<and> is_valid_message_type command_event
   \<and> ei_message (poll_event fresh_poll) = Some (poll_message fresh_poll)
   \<and> matches_kind (poll_message fresh_poll) Poll
   \<and> is_valid_message_type (poll_event fresh_poll)
   \<and> ei_message location_event = Some location_message
   \<and> \<not> is_valid_message_type location_event
   \<and> ei_message job_event = None
   \<and> \<not> is_valid_message_type job_event"
proof -
  have e1: "ei_message command_event = Some text_message"
    by (simp add: command_event_def)
  have k1: "matches_kind text_message Text"
    by (simp add: text_message_def)
  have v1: "is_valid_message_type command_event"
    using is_valid_message_type_iff [of command_event] e1 k1 by blast
  have e2: "ei_message (poll_event fresh_poll) = Some (poll_message fresh_poll)"
    by (simp add: poll_event_def)
  have k2: "matches_kind (poll_message fresh_poll) Poll"
    by (simp add: poll_message_def)
  have v2: "is_valid_message_type (poll_event fresh_poll)"
    using is_valid_message_type_iff [of "poll_event fresh_poll"] e2 k2 by blast
  have e3: "ei_message location_event = Some location_message"
    by (simp add: location_event_def)
  have k3: "\<not> matches_kind location_message k" for k
    by (cases k) (simp_all add: location_message_def text_message_def)
  have v3: "\<not> is_valid_message_type location_event"
    using is_valid_message_type_iff [of location_event] e3 k3 by simp
  have e4: "ei_message job_event = None"
    by (simp add: job_event_def)
  have v4: "\<not> is_valid_message_type job_event"
    using is_valid_message_type_iff [of job_event] e4 by simp
  show ?thesis
    using e1 k1 v1 e2 k2 v2 e3 v3 e4 v4 by simp
qed

section \<open>Who caused the event\<close>

text \<open>
  C10. When the event carries a callback query, \<open>user_id\<close>, \<open>user_username\<close> and
  \<open>user_name\<close> return the identity of the user the query comes from, whatever message is
  attached and whoever sent it. This is so for every event that \<open>from_callback\<close> builds
  from an update with a query. With neither a query nor a message the three return
  \<open>None\<close>.
\<close>

theorem user_identity_of_query:
  "(\<forall>q. ei_query info = Some q \<longrightarrow>
       user_id info = Inr (Some (usr_id (cq_from_user q)))
       \<and> user_username info = Inr (usr_username (cq_from_user q))
       \<and> user_name info = Inr (Some (usr_name (cq_from_user q))))
   \<and> (\<forall>q. upd_callback_query upd = Some q \<longrightarrow>
       (\<exists>i. from_callback upd a sp = Inr i
            \<and> ei_message i = cq_message q
            \<and> user_id i = Inr (Some (usr_id (cq_from_user q)))
            \<and> user_username i = Inr (usr_username (cq_from_user q))
            \<and> user_name i = Inr (Some (usr_name (cq_from_user q)))))
   \<and> (ei_query info = None \<and> ei_message info = None \<longrightarrow>
       user_id info = Inr None \<and> user_username info = Inr None \<and> user_name info = Inr None)"
  by (simp add: user_id_def user_username_def user_name_def from_callback_def)

theorem user_identity_of_query_witness:
  "ei_query button_event = Some vote_query
   \<and> ei_message button_event = Some text_message
   \<and> msg_from_user text_message = Some alice
   \<and> usr_id alice = 1001
   \<and> from_callback vote_update None None = Inr button_event
   \<and> user_id button_event = Inr (Some 2002)
   \<and> user_username button_event = Inr None
   \<and> user_name button_event = Inr (Some ''Bob B'')
   \<and> ei_query job_event = None \<and> ei_message job_event = None
   \<and> user_id job_event = Inr None \<and> user_username job_event = Inr None
   \<and> user_name job_event = Inr None"
  using user_identity_of_query [where info = button_event and upd = vote_update]
    user_identity_of_query [where info = job_event and upd = vote_update]
  by (simp add: button_event_def job_event_def vote_query_def vote_update_def bob_def alice_def
        text_message_def from_callback_def)

section \<open>Database backup command\<close>

text \<open>
  C8. The backup job is started exactly when the chat identifier of the event equals the
  configured group identifier. In that case the world afterwards is what the job makes
  of it; otherwise the world is unchanged: no call on the bot and no change of the
  store.
\<close>

theorem db_backup_cmd_gate:
  "fst (db_backup_cmd upd a sp cfg job w) = (chat_id (from_message upd a sp) = cfg_group_id cfg)
   \<and> (chat_id (from_message upd a sp) = cfg_group_id cfg \<longrightarrow>
        snd (db_backup_cmd upd a sp cfg job w) = job w)
   \<and> (chat_id (from_message upd a sp) \<noteq> cfg_group_id cfg \<longrightarrow>
        snd (db_backup_cmd upd a sp cfg job w) = w)"
  by (simp add: db_backup_cmd_def Let_def)

theorem db_backup_cmd_gate_witness:
  "chat_id (from_message admin_update None None) = cfg_group_id sample_config
   \<and> db_backup_cmd admin_update None None sample_config
        (do_call (SendMessage (- 1001) ''backup'' None [] None None)) empty_world
      = (True, do_call (SendMessage (- 1001) ''backup'' None [] None None) empty_world)
   \<and> chat_id (from_message private_update None None) \<noteq> cfg_group_id sample_config
   \<and> db_backup_cmd private_update None None sample_config
        (do_call (SendMessage (- 1001) ''backup'' None [] None None)) empty_world
      = (False, empty_world)"
proof -
  have a: "chat_id (from_message admin_update None None) = cfg_group_id sample_config"
    by (simp add: chat_id_def from_message_def admin_update_def sample_config_def)
  have p: "chat_id (from_message private_update None None) \<noteq> cfg_group_id sample_config"
    by (simp add: chat_id_def from_message_def private_update_def sample_config_def
          text_message_def)
  show ?thesis
    using a p
      db_backup_cmd_gate [where upd = admin_update and a = None and sp = None
        and cfg = sample_config and w = empty_world
        and job = "do_call (SendMessage (- 1001) ''backup'' None [] None None)"]
      db_backup_cmd_gate [where upd = private_update and a = None and sp = None
        and cfg = sample_config and w = empty_world
        and job = "do_call (SendMessage (- 1001) ''backup'' None [] None None)"]
    by (simp add: prod_eq_iff)
qed

section \<open>State codes\<close>

text \<open>
  C9. \<open>STATE\<close> has the seven states as its keys, gives them pairwise distinct codes, and
  \<open>end\<close>, with code \<open>-1\<close>, is the only state with a negative code.
\<close>

theorem STATE_codes:
  "map fst STATE = [''posting'', ''confirm'', ''reporting_spot'', ''reporting_user'',
       ''reporting_user_reason'', ''sending_user_report'', ''end'']
   \<and> distinct (map snd STATE)
   \<and> map_of STATE ''end'' = Some (- 1)
   \<and> filter (\<lambda>kv. snd kv < 0) STATE = [(''end'', - 1)]"
  by (simp add: STATE_def)

end
